theory Spec2Isabelle
  imports Main "HOL-Library.Sublist"
begin

section \<open>Capability sets, hierarchy levels and identifier attributes\<close>

text \<open>
  Modelled from the spec: \<^verbatim>\<open>dcm/lazyset.py\<close> (\<^verbatim>\<open>LazySet\<close>, \<^verbatim>\<open>FrozenLazySet\<close>,
  \<^verbatim>\<open>AllElems\<close>) is not among the sources. A capability set is modelled by the set of
  attribute identifiers it denotes; the sentinel "all identifiers" denotes the whole
  universe. Union, intersection and difference are the set operations, and the truth
  value Python takes of a set (\<^verbatim>\<open>if self.invertible_elems:\<close>) is non-emptiness. The
  frozen and the mutable variant denote the same sets.
\<close>

type_synonym lazyset = "string set"

definition AllElems :: lazyset where
  "AllElems = UNIV"

text \<open>
  Modelled from the spec: \<^verbatim>\<open>QueryLevel\<close> of \<^verbatim>\<open>dcm/query.py\<close> is not among the sources.
  The hierarchy is Patient, Study, Series, Instance; \<open>level_depth\<close> is the depth the
  levels are compared by (\<^verbatim>\<open>new_qr.level > self.new.level\<close>), the patient level the
  smallest. A larger depth is a finer level.
\<close>

datatype QueryLevel = PATIENT | STUDY | SERIES | IMAGE

fun level_depth :: "QueryLevel \<Rightarrow> nat" where
  "level_depth PATIENT = 0"
| "level_depth STUDY = 1"
| "level_depth SERIES = 2"
| "level_depth IMAGE = 3"

text \<open>
  Modelled from the spec: \<^verbatim>\<open>uid_elems\<close> of \<^verbatim>\<open>dcm/query.py\<close>, the module-level mapping
  from a hierarchy level to the name of its identifier-valued attribute, is not among
  the sources. It is a dictionary that is iterated in order, so it is an association
  list, the patient level first. The attribute names are the DICOM keywords.
\<close>

definition uid_elems :: "(QueryLevel \<times> string) list" where
  "uid_elems = [(PATIENT, ''PatientID''), (STUDY, ''StudyInstanceUID''),
                (SERIES, ''SeriesInstanceUID''), (IMAGE, ''SOPInstanceUID'')]"

definition uid_elem_set :: lazyset where
  "uid_elem_set = set (map snd uid_elems)"

section \<open>Filters\<close>

text \<open>
  \<^verbatim>\<open>_BaseFilter\<close>: the three declared capability sets. \<^verbatim>\<open>Filter\<close> and
  \<^verbatim>\<open>MultiFilter\<close> inherit from it, so they are record extensions.
\<close>

record BaseFilter =
  read_elems :: lazyset
  write_elems :: lazyset
  invertible_elems :: lazyset

definition uninvertible_elems :: "'a BaseFilter_scheme \<Rightarrow> lazyset" where
  "uninvertible_elems self = write_elems self - invertible_elems self"

definition invertible_uids :: "'a BaseFilter_scheme \<Rightarrow> lazyset" where
  "invertible_uids self = uid_elem_set - uninvertible_elems self"

record 'ds Filter = BaseFilter +
  func :: "'ds \<Rightarrow> 'ds option"

text \<open>
  \<^verbatim>\<open>Filter.__post_init__\<close>: a non-empty invertible set is added to the write set. The
  conversion of the three sets to \<^verbatim>\<open>FrozenLazySet\<close> changes no set.
\<close>

definition Filter_post_init :: "'ds Filter \<Rightarrow> 'ds Filter" where
  "Filter_post_init self =
     (if invertible_elems self \<noteq> {}
      then self\<lparr>write_elems := write_elems self \<union> invertible_elems self\<rparr>
      else self)"

text \<open>
  The constructor \<^verbatim>\<open>Filter(func, read_elems, write_elems, invertible_elems)\<close>: the
  dataclass stores the fields and runs \<^verbatim>\<open>__post_init__\<close>. The defaults of the
  declaration are \<open>AllElems\<close>, \<open>AllElems\<close> and the empty set.
\<close>

definition new_Filter ::
  "('ds \<Rightarrow> 'ds option) \<Rightarrow> lazyset \<Rightarrow> lazyset \<Rightarrow> lazyset \<Rightarrow> 'ds Filter" where
  "new_Filter f r w i =
     Filter_post_init \<lparr>read_elems = r, write_elems = w, invertible_elems = i, func = f\<rparr>"

definition Filter_call :: "'ds Filter \<Rightarrow> 'ds \<Rightarrow> 'ds option" where
  "Filter_call self data_set = func self data_set"

definition Filter_get_dependencies ::
  "'ds Filter \<Rightarrow> lazyset \<Rightarrow> ('ds \<Rightarrow> 'ds option) list \<times> lazyset" where
  "Filter_get_dependencies self elems = ([func self], read_elems self)"

record 'ds MultiFilter = BaseFilter +
  filters :: "'ds Filter list"

text \<open>
  \<^verbatim>\<open>MultiFilter.__post_init__\<close>: the loop over the filters with its four accumulators
  (read, write, invertible, uninvertible), then the subtraction and the three stores.
\<close>

fun post_init_loop ::
  "'ds Filter list \<Rightarrow> lazyset \<times> lazyset \<times> lazyset \<times> lazyset
     \<Rightarrow> lazyset \<times> lazyset \<times> lazyset \<times> lazyset" where
  "post_init_loop [] acc = acc"
| "post_init_loop (filt # rest) (r, w, i, u) =
     post_init_loop rest
       (r \<union> read_elems filt, w \<union> write_elems filt, i \<union> invertible_elems filt,
        u \<union> (write_elems filt - invertible_elems filt))"

definition new_MultiFilter :: "'ds Filter list \<Rightarrow> 'ds MultiFilter" where
  "new_MultiFilter fs =
     (case post_init_loop fs ({}, {}, {}, {}) of
        (r, w, i, u) \<Rightarrow>
          \<lparr>read_elems = r, write_elems = w, invertible_elems = i - u, filters = fs\<rparr>)"

text \<open>
  \<^verbatim>\<open>MultiFilter.get_dependencies\<close>: one pass over the filters, with the list of
  selected functions and the read sets accumulated so far.
\<close>

fun get_dependencies_loop ::
  "lazyset \<Rightarrow> 'ds Filter list \<Rightarrow> ('ds \<Rightarrow> 'ds option) list \<times> lazyset
     \<Rightarrow> ('ds \<Rightarrow> 'ds option) list \<times> lazyset" where
  "get_dependencies_loop elems [] acc = acc"
| "get_dependencies_loop elems (filt # rest) (funcs, dep_elems) =
     (if dep_elems \<inter> write_elems filt \<noteq> {} \<or> elems \<inter> write_elems filt \<noteq> {}
      then get_dependencies_loop elems rest (funcs @ [func filt], dep_elems \<union> read_elems filt)
      else get_dependencies_loop elems rest (funcs, dep_elems))"

definition MultiFilter_get_dependencies ::
  "'ds MultiFilter \<Rightarrow> lazyset \<Rightarrow> ('ds \<Rightarrow> 'ds option) list \<times> lazyset" where
  "MultiFilter_get_dependencies self elems = get_dependencies_loop elems (filters self) ([], {})"

text \<open>
  \<^verbatim>\<open>MultiFilter.__call__\<close>: the filters run left to right; the loop stops at the first
  one that returns \<^verbatim>\<open>None\<close>.
\<close>

fun MultiFilter_call_loop :: "'ds Filter list \<Rightarrow> 'ds \<Rightarrow> 'ds option" where
  "MultiFilter_call_loop [] data_set = Some data_set"
| "MultiFilter_call_loop (filt # rest) data_set =
     (case Filter_call filt data_set of
        None \<Rightarrow> None
      | Some d \<Rightarrow> MultiFilter_call_loop rest d)"

definition MultiFilter_call :: "'ds MultiFilter \<Rightarrow> 'ds \<Rightarrow> 'ds option" where
  "MultiFilter_call self data_set = MultiFilter_call_loop (filters self) data_set"

text \<open>
  The selection of the dependency pass as the specification words it: a filter is
  selected iff its write set meets the requested set or the union of the read sets of
  the filters selected before it. The list is given last filter first, so that the
  filters before the current one are the tail.
\<close>

fun selected_rev :: "lazyset \<Rightarrow> 'ds Filter list \<Rightarrow> 'ds Filter list" where
  "selected_rev requested [] = []"
| "selected_rev requested (f # before) =
     (if write_elems f \<inter> requested \<noteq> {}
         \<or> write_elems f \<inter> (\<Union>g \<in> set (selected_rev requested before). read_elems g) \<noteq> {}
      then selected_rev requested before @ [f]
      else selected_rev requested before)"

definition selected :: "lazyset \<Rightarrow> 'ds Filter list \<Rightarrow> 'ds Filter list" where
  "selected requested fs = selected_rev requested (rev fs)"

text \<open>
  \<^verbatim>\<open>make_edit_filter\<close>: the editing closure \<open>edit_func\<close> is built from calls into
  pydicom, which lies outside the repository, so it is a parameter. The dictionary of
  edits is an association list from keywords to the new value (\<open>None\<close> deletes).
\<close>

definition make_edit_filter ::
  "('ds \<Rightarrow> 'ds option) \<Rightarrow> (string \<times> 'v option) list \<Rightarrow> bool \<Rightarrow> 'ds Filter" where
  "make_edit_filter edit_func edit_dict update_uids =
     (let write_elems = (if \<not> update_uids then set (map fst edit_dict) else AllElems)
      in new_Filter edit_func AllElems write_elems {})"

section \<open>The record collection the engine works on\<close>

datatype error =
  InconsistentDataError | DuplicateDataError | QueryLevelMismatchError
  | AssertionError | KeyError | UnboundLocalError

text \<open>
  Modelled from the spec: \<^verbatim>\<open>QueryResult\<close>, \<^verbatim>\<open>DataNode\<close> and \<^verbatim>\<open>get_uid\<close> of
  \<^verbatim>\<open>dcm/query.py\<close> are not among the sources. The specification gives the contract of
  the hierarchical collection the engine consumes; its operations are the fields of this
  record, taken as a parameter by every function of the engine:
  \<^item> \<open>qr_new lvl\<close> is \<^verbatim>\<open>QueryResult(lvl)\<close>, the empty collection at a level;
  \<^item> \<open>qr_level q\<close> is \<^verbatim>\<open>q.level\<close>;
  \<^item> \<open>qr_contains q ds\<close> is \<^verbatim>\<open>ds in q\<close>, and \<open>None\<close> when the test raises
    \<^verbatim>\<open>InconsistentDataError\<close>;
  \<^item> \<open>qr_add q ds\<close> is the collection after \<^verbatim>\<open>q.add(ds)\<close>, and \<open>None\<close> when the call
    raises \<^verbatim>\<open>InconsistentDataError\<close> (the collection is then as it was);
  \<^item> \<open>qr_remove q ds\<close> is the collection after \<^verbatim>\<open>q.remove(ds)\<close>;
  \<^item> \<open>qr_iter q\<close> lists the records \<^verbatim>\<open>for ds in q\<close> visits, in order;
  \<^item> \<open>qr_sub_query q (lvl, uid) max_level\<close> is
    \<^verbatim>\<open>q.sub_query(DataNode(lvl, uid), max_level=max_level)\<close>;
  \<^item> \<open>qr_union a b\<close> is the value of \<^verbatim>\<open>a\<close> after \<^verbatim>\<open>a |= b\<close>;
  \<^item> \<open>get_uid lvl ds\<close> is the identifier of the record at a level.
\<close>

record ('q, 'ds) QueryResult_ops =
  qr_new :: "QueryLevel \<Rightarrow> 'q"
  qr_level :: "'q \<Rightarrow> QueryLevel"
  qr_contains :: "'q \<Rightarrow> 'ds \<Rightarrow> bool option"
  qr_add :: "'q \<Rightarrow> 'ds \<Rightarrow> 'q option"
  qr_remove :: "'q \<Rightarrow> 'ds \<Rightarrow> 'q"
  qr_iter :: "'q \<Rightarrow> 'ds list"
  qr_sub_query :: "'q \<Rightarrow> QueryLevel \<times> string \<Rightarrow> QueryLevel \<Rightarrow> 'q"
  qr_union :: "'q \<Rightarrow> 'q \<Rightarrow> 'q"
  get_uid :: "QueryLevel \<Rightarrow> 'ds \<Rightarrow> string"

text \<open>\<^verbatim>\<open>DataCollection\<close>: the bundle \<^verbatim>\<open>reverse\<close> returns.\<close>

record ('q, 'ds) DataCollection =
  qr :: 'q
  inconsistent :: "'ds list"
  duplicate :: "'ds list"

section \<open>The identity transform\<close>

text \<open>\<^verbatim>\<open>DummyTransform\<close>: \<open>old\<close> and \<open>new\<close> are one collection object.\<close>

record 'q DummyTransform =
  dummy_qr :: 'q

definition new_DummyTransform :: "'q \<Rightarrow> 'q DummyTransform" where
  "new_DummyTransform q = \<lparr>dummy_qr = q\<rparr>"

text \<open>
  \<^verbatim>\<open>DummyTransform.add\<close>: the assertion that both arguments are one object, the
  duplicate test, the insertion. Whether two arguments are one object
  (\<^verbatim>\<open>old_ds is new_ds\<close>) is not a property of their values, so the truth value of that
  test is an argument of its own, \<open>same_object\<close>. The result is the error raised, if
  any, and the engine after the call.
\<close>

definition DummyTransform_add ::
  "('q, 'ds) QueryResult_ops \<Rightarrow> 'q DummyTransform \<Rightarrow> 'ds \<Rightarrow> 'ds \<Rightarrow> bool
     \<Rightarrow> error option \<times> 'q DummyTransform" where
  "DummyTransform_add ops self old_ds new_ds same_object =
     (if \<not> same_object then (Some AssertionError, self)
      else case qr_contains ops (dummy_qr self) old_ds of
        None \<Rightarrow> (Some InconsistentDataError, self)
      | Some True \<Rightarrow> (Some DuplicateDataError, self)
      | Some False \<Rightarrow>
          (case qr_add ops (dummy_qr self) old_ds of
             None \<Rightarrow> (Some InconsistentDataError, self)
           | Some q \<Rightarrow> (None, self\<lparr>dummy_qr := q\<rparr>)))"

definition DummyTransform_reverse ::
  "'q DummyTransform \<Rightarrow> 'q \<Rightarrow> ('q, 'ds) DataCollection" where
  "DummyTransform_reverse self new_qr = \<lparr>qr = new_qr, inconsistent = [], duplicate = []\<rparr>"

section \<open>The filter-driven transform\<close>

text \<open>
  The filter handed to the engine is a \<^verbatim>\<open>Filter\<close> or a \<^verbatim>\<open>MultiFilter\<close>; calling it and
  reading its \<^verbatim>\<open>invertible_uids\<close> dispatch on which it is.
\<close>

datatype 'ds AnyFilter = Single "'ds Filter" | Multi "'ds MultiFilter"

fun AnyFilter_call :: "'ds AnyFilter \<Rightarrow> 'ds \<Rightarrow> 'ds option" where
  "AnyFilter_call (Single f) data_set = Filter_call f data_set"
| "AnyFilter_call (Multi m) data_set = MultiFilter_call m data_set"

fun AnyFilter_invertible_uids :: "'ds AnyFilter \<Rightarrow> lazyset" where
  "AnyFilter_invertible_uids (Single f) = invertible_uids f"
| "AnyFilter_invertible_uids (Multi m) = invertible_uids m"

text \<open>The state of a \<^verbatim>\<open>FilterTransform\<close>; \<open>new_to_old\<close> is \<^verbatim>\<open>_new_to_old\<close>.\<close>

record ('q, 'ds) FilterTransform =
  old :: 'q
  new :: 'q
  new_to_old :: "QueryLevel \<Rightarrow> string \<rightharpoonup> string"
  fixed_inconsistent :: "string \<rightharpoonup> 'ds"
  fixed_duplicates :: "string \<rightharpoonup> 'ds"
  fully_invertible :: lazyset

text \<open>
  The loop of \<^verbatim>\<open>_add_new\<close> over \<^verbatim>\<open>uid_elems.items()\<close>: it stores the identifier pair
  of each level and stops after the level of \<open>old\<close>. The second component is the
  variable \<^verbatim>\<open>new_uid\<close>, unbound before the first iteration.
\<close>

fun add_new_loop ::
  "(QueryLevel \<Rightarrow> 'ds \<Rightarrow> string) \<Rightarrow> QueryLevel \<Rightarrow> 'ds \<Rightarrow> 'ds \<Rightarrow> (QueryLevel \<times> string) list
     \<Rightarrow> (QueryLevel \<Rightarrow> string \<rightharpoonup> string) \<times> string option
     \<Rightarrow> (QueryLevel \<Rightarrow> string \<rightharpoonup> string) \<times> string option" where
  "add_new_loop g old_level old_ds new_ds [] acc = acc"
| "add_new_loop g old_level old_ds new_ds ((lvl, uid_attr) # rest) (m, u) =
     (let new_uid = g lvl new_ds;
          old_uid = g lvl old_ds;
          m' = m(lvl := (m lvl)(new_uid \<mapsto> old_uid))
      in if lvl = old_level then (m', Some new_uid)
         else add_new_loop g old_level old_ds new_ds rest (m', Some new_uid))"

text \<open>
  \<^verbatim>\<open>FilterTransform._add_new\<close>: the result is what the call returns (\<open>Inr None\<close> for a
  duplicate of \<open>new\<close>, \<open>Inr (Some new_uid)\<close> otherwise) or the error it raises, with the
  engine as the call leaves it.
\<close>

definition add_new ::
  "('q, 'ds) QueryResult_ops \<Rightarrow> ('q, 'ds) FilterTransform \<Rightarrow> 'ds \<Rightarrow> 'ds
     \<Rightarrow> (error + string option) \<times> ('q, 'ds) FilterTransform" where
  "add_new ops self old_ds new_ds =
     (case qr_contains ops (new self) new_ds of
        None \<Rightarrow> (Inl InconsistentDataError, self)
      | Some True \<Rightarrow> (Inr None, self)
      | Some False \<Rightarrow>
          (case qr_add ops (new self) new_ds of
             None \<Rightarrow> (Inl InconsistentDataError, self)
           | Some new' \<Rightarrow>
               (case add_new_loop (get_uid ops) (qr_level ops (old self)) old_ds new_ds
                       uid_elems (new_to_old self, None) of
                  (m, None) \<Rightarrow> (Inl UnboundLocalError, self\<lparr>new := new', new_to_old := m\<rparr>)
                | (m, Some new_uid) \<Rightarrow>
                    (Inr (Some new_uid), self\<lparr>new := new', new_to_old := m\<rparr>))))"

text \<open>
  \<^verbatim>\<open>FilterTransform.__init__\<close>: the loop over the source collection. The result is the
  list of warnings logged and either the error that aborts the construction or the
  engine.
\<close>

fun init_loop ::
  "('q, 'ds) QueryResult_ops \<Rightarrow> ('ds \<Rightarrow> 'ds option) \<Rightarrow> 'ds list \<Rightarrow> ('q, 'ds) FilterTransform
     \<Rightarrow> string list \<times> (error + ('q, 'ds) FilterTransform)" where
  "init_loop ops filt [] self = ([], Inr self)"
| "init_loop ops filt (old_ds # rest) self =
     (case filt old_ds of
        None \<Rightarrow> init_loop ops filt rest self
      | Some new_ds \<Rightarrow>
          (case add_new ops self old_ds new_ds of
             (Inl e, self') \<Rightarrow>
               (if e = InconsistentDataError then ([''Filter made data inconsistent''], Inl e)
                else ([], Inl e))
           | (Inr None, self') \<Rightarrow>
               ([''Filter made data into a duplicate''], Inl DuplicateDataError)
           | (Inr (Some new_uid), self') \<Rightarrow> init_loop ops filt rest self'))"

text \<open>The fields as \<^verbatim>\<open>__init__\<close> assigns them before its loop.\<close>

definition init_fields ::
  "('q, 'ds) QueryResult_ops \<Rightarrow> 'q \<Rightarrow> 'ds AnyFilter \<Rightarrow> ('q, 'ds) FilterTransform" where
  "init_fields ops q filt =
     \<lparr>old = q, new = qr_new ops (qr_level ops q), new_to_old = (\<lambda>lvl. Map.empty),
      fixed_inconsistent = Map.empty, fixed_duplicates = Map.empty,
      fully_invertible = AnyFilter_invertible_uids filt\<rparr>"

definition new_FilterTransform ::
  "('q, 'ds) QueryResult_ops \<Rightarrow> 'q \<Rightarrow> 'ds AnyFilter
     \<Rightarrow> string list \<times> (error + ('q, 'ds) FilterTransform)" where
  "new_FilterTransform ops q filt =
     init_loop ops (AnyFilter_call filt) (qr_iter ops q) (init_fields ops q filt)"

text \<open>
  \<^verbatim>\<open>FilterTransform.add\<close>, its first statement: the \<^verbatim>\<open>try ... except ... else\<close>
  that classifies \<open>old_ds\<close> against \<open>old\<close> and inserts it when it is neither a
  duplicate nor inconsistent. The result is the two flags \<^verbatim>\<open>old_inconsistent\<close> and
  \<^verbatim>\<open>old_dupe\<close> with the engine; an error of \<^verbatim>\<open>self.old.add\<close> in the \<^verbatim>\<open>else\<close>
  branch is not caught and leaves the call.
\<close>

definition add_old ::
  "('q, 'ds) QueryResult_ops \<Rightarrow> ('q, 'ds) FilterTransform \<Rightarrow> 'ds
     \<Rightarrow> error + (bool \<times> bool \<times> ('q, 'ds) FilterTransform)" where
  "add_old ops self old_ds =
     (case qr_contains ops (old self) old_ds of
        None \<Rightarrow> Inr (True, False, self)
      | Some old_dupe \<Rightarrow>
          if \<not> old_dupe
          then (case qr_add ops (old self) old_ds of
                  None \<Rightarrow> Inl InconsistentDataError
                | Some old' \<Rightarrow> Inr (False, False, self\<lparr>old := old'\<rparr>))
          else Inr (False, True, self))"

text \<open>
  \<^verbatim>\<open>FilterTransform.add\<close>, its second statement (\<^verbatim>\<open>if new_ds is not None:\<close>), given
  the two flags: the merge into \<open>new\<close>, the roll-back of \<open>old\<close> on a failure, the two
  ledgers on success. The result is the error raised (\<open>None\<close> when the call returns),
  the warnings logged, and the engine after the call.
\<close>

definition add_filtered ::
  "('q, 'ds) QueryResult_ops \<Rightarrow> ('q, 'ds) FilterTransform \<Rightarrow> bool \<Rightarrow> bool \<Rightarrow> 'ds \<Rightarrow> 'ds option
     \<Rightarrow> error option \<times> string list \<times> ('q, 'ds) FilterTransform" where
  "add_filtered ops self old_inconsistent old_dupe old_ds new_ds =
     (case new_ds of
        None \<Rightarrow> (None, [], self)
      | Some new_ds' \<Rightarrow>
          (case add_new ops self old_ds new_ds' of
             (Inl e, self') \<Rightarrow>
               (if e = InconsistentDataError \<and> \<not> old_inconsistent
                then (Some e, [''Filter made data inconsistent''],
                      self'\<lparr>old := qr_remove ops (old self') old_ds\<rparr>)
                else (Some e, [], self'))
           | (Inr None, self') \<Rightarrow>
               (if \<not> old_dupe
                then (Some DuplicateDataError, [''Filter made data into a duplicate''],
                      self'\<lparr>old := qr_remove ops (old self') old_ds\<rparr>)
                else (Some DuplicateDataError, [], self'))
           | (Inr (Some new_uid), self') \<Rightarrow>
               (if old_inconsistent
                then (None, [],
                      self'\<lparr>fixed_inconsistent := (fixed_inconsistent self')(new_uid \<mapsto> old_ds)\<rparr>)
                else if old_dupe
                then (None, [],
                      self'\<lparr>fixed_duplicates := (fixed_duplicates self')(new_uid \<mapsto> old_ds)\<rparr>)
                else (None, [], self'))))"

text \<open>\<^verbatim>\<open>FilterTransform.add\<close>: the two statements in sequence.\<close>

definition FilterTransform_add ::
  "('q, 'ds) QueryResult_ops \<Rightarrow> ('q, 'ds) FilterTransform \<Rightarrow> 'ds \<Rightarrow> 'ds option
     \<Rightarrow> error option \<times> string list \<times> ('q, 'ds) FilterTransform" where
  "FilterTransform_add ops self old_ds new_ds =
     (case add_old ops self old_ds of
        Inl e \<Rightarrow> (Some e, [], self)
      | Inr (old_inconsistent, old_dupe, self') \<Rightarrow>
          add_filtered ops self' old_inconsistent old_dupe old_ds new_ds)"

text \<open>
  The loop of \<^verbatim>\<open>FilterTransform.reverse\<close> over the records of the requested subset,
  with the three accumulators \<^verbatim>\<open>res\<close>, \<^verbatim>\<open>inconsist\<close> and \<^verbatim>\<open>dupes\<close>. The
  assertion and the dictionary lookup can fail.
\<close>

fun reverse_loop ::
  "('q, 'ds) QueryResult_ops \<Rightarrow> ('q, 'ds) FilterTransform \<Rightarrow> QueryLevel \<Rightarrow> 'ds list
     \<Rightarrow> 'q \<times> 'ds list \<times> 'ds list \<Rightarrow> error + ('q, 'ds) DataCollection" where
  "reverse_loop ops self lvl [] (res, inconsist, dupes) =
     Inr \<lparr>qr = res, inconsistent = inconsist, duplicate = dupes\<rparr>"
| "reverse_loop ops self lvl (ds # rest) (res, inconsist, dupes) =
     (case qr_contains ops (new self) ds of
        None \<Rightarrow> Inl InconsistentDataError
      | Some False \<Rightarrow> Inl AssertionError
      | Some True \<Rightarrow>
          (let new_uid = get_uid ops lvl ds in
           case new_to_old self lvl new_uid of
             None \<Rightarrow> Inl KeyError
           | Some old_uid \<Rightarrow>
               (let merged = qr_union ops res (qr_sub_query ops (old self) (lvl, old_uid) lvl) in
                if lvl = qr_level ops (new self)
                then (case fixed_duplicates self new_uid of
                        Some old_dupe \<Rightarrow>
                          reverse_loop ops self lvl rest (res, inconsist, dupes @ [old_dupe])
                      | None \<Rightarrow>
                          (case fixed_inconsistent self new_uid of
                             Some old_inconsist \<Rightarrow>
                               reverse_loop ops self lvl rest
                                 (res, inconsist @ [old_inconsist], dupes)
                           | None \<Rightarrow> reverse_loop ops self lvl rest (merged, inconsist, dupes)))
                else reverse_loop ops self lvl rest (merged, inconsist, dupes))))"

text \<open>
  \<^verbatim>\<open>FilterTransform.reverse\<close>: the level check, then the loop. The levels are compared
  by their depth.
\<close>

definition FilterTransform_reverse ::
  "('q, 'ds) QueryResult_ops \<Rightarrow> ('q, 'ds) FilterTransform \<Rightarrow> 'q
     \<Rightarrow> error + ('q, 'ds) DataCollection" where
  "FilterTransform_reverse ops self new_qr =
     (if qr_level ops new_qr \<noteq> qr_level ops (new self)
         \<and> (level_depth (qr_level ops new_qr) > level_depth (qr_level ops (new self))
            \<or> fully_invertible self = {})
      then Inl QueryLevelMismatchError
      else reverse_loop ops self (qr_level ops new_qr) (qr_iter ops new_qr)
             (qr_new ops (qr_level ops new_qr), [], []))"

section \<open>The contract of the collection, and a collection that meets it\<close>



text \<open>
  The engines a caller can hold: one that \<^verbatim>\<open>FilterTransform(qr, filt)\<close> returned, after
  any number of calls of \<^verbatim>\<open>add\<close>, failed ones included.
\<close>

inductive reachable ::
  "('q, 'ds) QueryResult_ops \<Rightarrow> ('q, 'ds) FilterTransform \<Rightarrow> bool"
  for ops :: "('q, 'ds) QueryResult_ops" where
  constructed: "new_FilterTransform ops q filt = (lg, Inr self) \<Longrightarrow> reachable ops self"
| added: "reachable ops self \<Longrightarrow> FilterTransform_add ops self old_ds new_ds = (res, lg, self')
          \<Longrightarrow> reachable ops self'"

text \<open>
  Modelled from the spec: a small collection for the closed examples. A record is
  reduced to its four identifier-valued attributes. The collection holds a list of
  records at a level; a record whose identifier at that level is present is a member
  when a stored record has the same identifiers from the patient level down to that
  level, and inconsistent with the collection otherwise.
\<close>

record Dataset =
  PatientID :: string
  StudyInstanceUID :: string
  SeriesInstanceUID :: string
  SOPInstanceUID :: string

fun Dataset_uid :: "QueryLevel \<Rightarrow> Dataset \<Rightarrow> string" where
  "Dataset_uid PATIENT ds = PatientID ds"
| "Dataset_uid STUDY ds = StudyInstanceUID ds"
| "Dataset_uid SERIES ds = SeriesInstanceUID ds"
| "Dataset_uid IMAGE ds = SOPInstanceUID ds"

fun levels_upto :: "QueryLevel \<Rightarrow> QueryLevel list" where
  "levels_upto PATIENT = [PATIENT]"
| "levels_upto STUDY = [PATIENT, STUDY]"
| "levels_upto SERIES = [PATIENT, STUDY, SERIES]"
| "levels_upto IMAGE = [PATIENT, STUDY, SERIES, IMAGE]"

definition uid_path :: "QueryLevel \<Rightarrow> Dataset \<Rightarrow> string list" where
  "uid_path lvl ds = map (\<lambda>l. Dataset_uid l ds) (levels_upto lvl)"

record QueryResult =
  qlevel :: QueryLevel
  nodes :: "Dataset list"

definition QueryResult_contains :: "QueryResult \<Rightarrow> Dataset \<Rightarrow> bool option" where
  "QueryResult_contains q ds =
     (if Dataset_uid (qlevel q) ds \<in> Dataset_uid (qlevel q) ` set (nodes q)
      then (if uid_path (qlevel q) ds \<in> uid_path (qlevel q) ` set (nodes q)
            then Some True else None)
      else Some False)"

definition QueryResult_add :: "QueryResult \<Rightarrow> Dataset \<Rightarrow> QueryResult option" where
  "QueryResult_add q ds =
     (case QueryResult_contains q ds of
        None \<Rightarrow> None
      | Some True \<Rightarrow> Some q
      | Some False \<Rightarrow> Some (q\<lparr>nodes := nodes q @ [ds]\<rparr>))"

definition QueryResult_remove :: "QueryResult \<Rightarrow> Dataset \<Rightarrow> QueryResult" where
  "QueryResult_remove q ds =
     q\<lparr>nodes := filter (\<lambda>d. Dataset_uid (qlevel q) d \<noteq> Dataset_uid (qlevel q) ds) (nodes q)\<rparr>"

definition QueryResult_sub_query ::
  "QueryResult \<Rightarrow> QueryLevel \<times> string \<Rightarrow> QueryLevel \<Rightarrow> QueryResult" where
  "QueryResult_sub_query q node max_level =
     \<lparr>qlevel = max_level, nodes = filter (\<lambda>d. Dataset_uid (fst node) d = snd node) (nodes q)\<rparr>"

definition QueryResult_union :: "QueryResult \<Rightarrow> QueryResult \<Rightarrow> QueryResult" where
  "QueryResult_union a b = a\<lparr>nodes := nodes a @ filter (\<lambda>d. d \<notin> set (nodes a)) (nodes b)\<rparr>"

definition QueryResult_impl :: "(QueryResult, Dataset) QueryResult_ops" where
  "QueryResult_impl =
     \<lparr>qr_new = (\<lambda>lvl. \<lparr>qlevel = lvl, nodes = []\<rparr>), qr_level = qlevel,
      qr_contains = QueryResult_contains, qr_add = QueryResult_add,
      qr_remove = QueryResult_remove, qr_iter = nodes,
      qr_sub_query = QueryResult_sub_query, qr_union = QueryResult_union,
      get_uid = Dataset_uid\<rparr>"

text \<open>
  Records and engines for the closed examples: two instances of one series, two
  filtered instances, an instance that claims the identifier of the first under
  another patient, a filtered instance that claims the identifier of the first filtered
  one under another patient, and an instance of another patient.
\<close>

definition rec_I1 :: Dataset where
  "rec_I1 = \<lparr>PatientID = ''P1'', StudyInstanceUID = ''S1'', SeriesInstanceUID = ''Se1'',
              SOPInstanceUID = ''I1''\<rparr>"

definition rec_I2 :: Dataset where
  "rec_I2 = \<lparr>PatientID = ''P1'', StudyInstanceUID = ''S1'', SeriesInstanceUID = ''Se1'',
              SOPInstanceUID = ''I2''\<rparr>"

definition rec_N1 :: Dataset where
  "rec_N1 = \<lparr>PatientID = ''P1'', StudyInstanceUID = ''S1'', SeriesInstanceUID = ''Se1'',
              SOPInstanceUID = ''N1''\<rparr>"

definition rec_N2 :: Dataset where
  "rec_N2 = \<lparr>PatientID = ''P1'', StudyInstanceUID = ''S1'', SeriesInstanceUID = ''Se1'',
              SOPInstanceUID = ''N2''\<rparr>"

definition rec_clash :: Dataset where
  "rec_clash = \<lparr>PatientID = ''P2'', StudyInstanceUID = ''S1'', SeriesInstanceUID = ''Se1'',
                 SOPInstanceUID = ''I1''\<rparr>"

definition rec_N1_moved :: Dataset where
  "rec_N1_moved = \<lparr>PatientID = ''P2'', StudyInstanceUID = ''S1'', SeriesInstanceUID = ''Se1'',
                    SOPInstanceUID = ''N1''\<rparr>"

definition rec_other :: Dataset where
  "rec_other = \<lparr>PatientID = ''P2'', StudyInstanceUID = ''S2'', SeriesInstanceUID = ''Se2'',
                 SOPInstanceUID = ''I2''\<rparr>"

text \<open>
  A filter that declares the instance identifier written and invertible, and one that
  maps every instance onto the identifier \<open>N1\<close>.
\<close>

definition uid_filter :: "Dataset AnyFilter" where
  "uid_filter = Single (new_Filter Some AllElems {''SOPInstanceUID''} {''SOPInstanceUID''})"


text \<open>
  The engine over an empty collection of instances; the engine after
  \<^verbatim>\<open>add(rec_I1, rec_N1)\<close>; that engine after \<^verbatim>\<open>add(rec_I1, rec_N2)\<close>, and after
  \<^verbatim>\<open>add(rec_clash, rec_N2)\<close> instead; the engine over an empty collection of studies;
  the engine in the making over a collection that starts with \<open>rec_I1\<close>, after that
  record, under the collapsing filter; and a filter of \<^verbatim>\<open>make_edit_filter\<close> that sets
  the patient's name.
\<close>

definition engine0 :: "(QueryResult, Dataset) FilterTransform" where
  "engine0 = init_fields QueryResult_impl \<lparr>qlevel = IMAGE, nodes = []\<rparr> uid_filter"

definition engine1 :: "(QueryResult, Dataset) FilterTransform" where
  "engine1 = snd (snd (FilterTransform_add QueryResult_impl engine0 rec_I1 (Some rec_N1)))"



definition study_engine :: "(QueryResult, Dataset) FilterTransform" where
  "study_engine = init_fields QueryResult_impl \<lparr>qlevel = STUDY, nodes = []\<rparr> uid_filter"


definition edit_filter :: "bool \<Rightarrow> Dataset AnyFilter" where
  "edit_filter update_uids =
     Single (make_edit_filter Some [(''PatientName'', Some ''Anonymous'')] update_uids)"




section \<open>Properties of the filters\<close>

text \<open>
  C6: a constructed \<^verbatim>\<open>Filter\<close> has its invertible set inside its write set. The stored
  write set is the union of the given write set and the given invertible set (so it is
  widened exactly when the invertible set was not inside it, and never narrowed); the
  invertible set, the read set and the function are stored as given.
\<close>

theorem Filter_invertible_subset_write:
  "invertible_elems (new_Filter f r w i) \<subseteq> write_elems (new_Filter f r w i)
   \<and> write_elems (new_Filter f r w i) = w \<union> i
   \<and> invertible_elems (new_Filter f r w i) = i
   \<and> read_elems (new_Filter f r w i) = r
   \<and> func (new_Filter f r w i) = f"
  by (simp add: new_Filter_def Filter_post_init_def)

theorem Filter_invertible_subset_write_witness:
  "invertible_elems (new_Filter (Some :: Dataset \<Rightarrow> Dataset option) {} {''PatientName''} {''PatientID''})
     \<subseteq> write_elems (new_Filter (Some :: Dataset \<Rightarrow> Dataset option) {} {''PatientName''} {''PatientID''})
   \<and> write_elems (new_Filter (Some :: Dataset \<Rightarrow> Dataset option) {} {''PatientName''} {''PatientID''})
       = {''PatientName'', ''PatientID''}"
  using Filter_invertible_subset_write
    [of "Some :: Dataset \<Rightarrow> Dataset option" "{}" "{''PatientName''}" "{''PatientID''}"]
  by (simp add: insert_commute)

text \<open>
  C9: \<^verbatim>\<open>get_dependencies\<close> of a single \<^verbatim>\<open>Filter\<close> returns the filter's function
  and its whole declared read set whatever set is requested, also one that is disjoint
  from the write set: a stand-alone filter is never pruned.
\<close>

theorem Filter_get_dependencies_whole:
  "Filter_get_dependencies flt elems = ([func flt], read_elems flt)
   \<and> Filter_get_dependencies (new_Filter f r w i) elems = ([f], r)"
  by (simp add: Filter_get_dependencies_def new_Filter_def Filter_post_init_def)

theorem Filter_get_dependencies_whole_witness:
  "{''PatientName''} \<inter> write_elems (new_Filter (Some :: Dataset \<Rightarrow> Dataset option)
       {''StudyDate''} {''PatientID''} {}) = {}
   \<and> Filter_get_dependencies (new_Filter (Some :: Dataset \<Rightarrow> Dataset option)
         {''StudyDate''} {''PatientID''} {}) {''PatientName''} = ([Some], {''StudyDate''})"
proof -
  have w: "write_elems (new_Filter (Some :: Dataset \<Rightarrow> Dataset option)
       {''StudyDate''} {''PatientID''} {}) = {''PatientID''}"
    by (simp add: new_Filter_def Filter_post_init_def)
  have d: "Filter_get_dependencies (new_Filter (Some :: Dataset \<Rightarrow> Dataset option)
         {''StudyDate''} {''PatientID''} {}) {''PatientName''} = ([Some], {''StudyDate''})"
    using Filter_get_dependencies_whole
      [where f = "Some :: Dataset \<Rightarrow> Dataset option" and r = "{''StudyDate''}"
         and w = "{''PatientID''}" and i = "{}" and elems = "{''PatientName''}"
         and flt = "new_Filter (Some :: Dataset \<Rightarrow> Dataset option) {''StudyDate''} {''PatientID''} {}"]
    by (rule conjunct2)
  show ?thesis
    unfolding w d by simp
qed

lemma post_init_loop_unions:
  "post_init_loop fs (r, w, i, u) =
     (r \<union> (\<Union>f \<in> set fs. read_elems f), w \<union> (\<Union>f \<in> set fs. write_elems f),
      i \<union> (\<Union>f \<in> set fs. invertible_elems f),
      u \<union> (\<Union>f \<in> set fs. write_elems f - invertible_elems f))"
proof (induction fs arbitrary: r w i u)
  case Nil
  show ?case by simp
next
  case (Cons f fs)
  show ?case
    unfolding post_init_loop.simps Cons.IH by (simp add: Un_assoc)
qed

text \<open>
  C3: the invertible set of a chain is the union of the members' invertible sets minus
  the union of what the members write without declaring it invertible; the read and
  the write set are the plain unions. In particular an attribute that one member
  declares invertible and another member writes without declaring it invertible is not
  in the chain's invertible set.
\<close>

theorem MultiFilter_aggregate_sets:
  "invertible_elems (new_MultiFilter fs) =
     (\<Union>f \<in> set fs. invertible_elems f) - (\<Union>f \<in> set fs. write_elems f - invertible_elems f)
   \<and> read_elems (new_MultiFilter fs) = (\<Union>f \<in> set fs. read_elems f)
   \<and> write_elems (new_MultiFilter fs) = (\<Union>f \<in> set fs. write_elems f)
   \<and> (fa \<in> set fs \<and> fb \<in> set fs \<and> X \<in> invertible_elems fa
        \<and> X \<in> write_elems fb \<and> X \<notin> invertible_elems fb
      \<longrightarrow> X \<notin> invertible_elems (new_MultiFilter fs))"
  by (auto simp add: new_MultiFilter_def post_init_loop_unions)

theorem MultiFilter_aggregate_sets_witness:
  "''X'' \<in> invertible_elems (new_Filter (Some :: Dataset \<Rightarrow> Dataset option) {} {} {''X''})
   \<and> ''X'' \<in> write_elems (new_Filter (Some :: Dataset \<Rightarrow> Dataset option) {} {''X''} {})
   \<and> ''X'' \<notin> invertible_elems (new_Filter (Some :: Dataset \<Rightarrow> Dataset option) {} {''X''} {})
   \<and> ''X'' \<notin> invertible_elems
         (new_MultiFilter [new_Filter (Some :: Dataset \<Rightarrow> Dataset option) {} {} {''X''},
                           new_Filter Some {} {''X''} {}])"
  using MultiFilter_aggregate_sets
    [where fs = "[new_Filter (Some :: Dataset \<Rightarrow> Dataset option) {} {} {''X''},
                  new_Filter Some {} {''X''} {}]"
       and fa = "new_Filter (Some :: Dataset \<Rightarrow> Dataset option) {} {} {''X''}"
       and fb = "new_Filter (Some :: Dataset \<Rightarrow> Dataset option) {} {''X''} {}"
       and X = "''X''"]
  by (simp add: new_Filter_def Filter_post_init_def)

lemma selected_snoc:
  "selected requested (fs @ [f]) =
     (if write_elems f \<inter> requested \<noteq> {}
         \<or> write_elems f \<inter> (\<Union>g \<in> set (selected requested fs). read_elems g) \<noteq> {}
      then selected requested fs @ [f]
      else selected requested fs)"
  by (simp add: selected_def)

lemma selected_Nil: "selected requested [] = []"
  by (simp add: selected_def)

lemma get_dependencies_loop_selected:
  "get_dependencies_loop elems fs
     (map func (selected elems pre), \<Union>g \<in> set (selected elems pre). read_elems g) =
   (map func (selected elems (pre @ fs)), \<Union>g \<in> set (selected elems (pre @ fs)). read_elems g)"
proof (induction fs arbitrary: pre)
  case Nil
  show ?case by simp
next
  case (Cons f fs)
  let ?sel = "selected elems pre"
  let ?dep = "\<Union>g \<in> set ?sel. read_elems g"
  have split: "pre @ f # fs = (pre @ [f]) @ fs" by simp
  show ?case
  proof (cases "?dep \<inter> write_elems f \<noteq> {} \<or> elems \<inter> write_elems f \<noteq> {}")
    case True
    then have c: "write_elems f \<inter> elems \<noteq> {} \<or> write_elems f \<inter> ?dep \<noteq> {}"
      by (auto simp: Int_commute)
    have s: "selected elems (pre @ [f]) = ?sel @ [f]"
      using c by (simp only: selected_snoc if_True)
    have "get_dependencies_loop elems (f # fs) (map func ?sel, ?dep) =
          get_dependencies_loop elems fs (map func ?sel @ [func f], ?dep \<union> read_elems f)"
      using True by (simp only: get_dependencies_loop.simps if_True)
    also have "(map func ?sel @ [func f], ?dep \<union> read_elems f) =
          (map func (selected elems (pre @ [f])),
           \<Union>g \<in> set (selected elems (pre @ [f])). read_elems g)"
      unfolding s by auto
    finally show ?thesis
      unfolding split by (simp only: Cons.IH)
  next
    case False
    then have c: "\<not> (write_elems f \<inter> elems \<noteq> {} \<or> write_elems f \<inter> ?dep \<noteq> {})"
      by (auto simp: Int_commute)
    have s: "selected elems (pre @ [f]) = ?sel"
      using c by (simp only: selected_snoc if_False)
    have "get_dependencies_loop elems (f # fs) (map func ?sel, ?dep) =
          get_dependencies_loop elems fs (map func ?sel, ?dep)"
      using False by (simp only: get_dependencies_loop.simps if_False)
    then show ?thesis
      unfolding split using Cons.IH [of "pre @ [f]"] by (simp only: s)
  qed
qed

lemma subseq_selected_rev: "subseq (selected_rev requested fs) (rev fs)"
proof (induction fs)
  case Nil
  show ?case by simp
next
  case (Cons f fs)
  then show ?case by (auto intro: subseq_rev_drop_many list_emb_append_mono)
qed

text \<open>
  C4: \<^verbatim>\<open>get_dependencies\<close> of a chain is one forward pass in the declared order. It
  returns the functions of the selected filters, in their original order, with the
  union of the selected filters' read sets, where a filter is selected iff its write
  set meets the requested set or the union of the read sets of the filters selected
  before it.
\<close>

theorem get_dependencies_forward_pass:
  "MultiFilter_get_dependencies mf requested =
     (map func (selected requested (filters mf)),
      \<Union>g \<in> set (selected requested (filters mf)). read_elems g)
   \<and> subseq (selected requested (filters mf)) (filters mf)
   \<and> selected requested [] = []
   \<and> selected requested (fs @ [f]) =
       (if write_elems f \<inter> requested \<noteq> {}
           \<or> write_elems f \<inter> (\<Union>g \<in> set (selected requested fs). read_elems g) \<noteq> {}
        then selected requested fs @ [f]
        else selected requested fs)"
proof -
  have "MultiFilter_get_dependencies mf requested =
     (map func (selected requested (filters mf)),
      \<Union>g \<in> set (selected requested (filters mf)). read_elems g)"
    using get_dependencies_loop_selected [of requested "filters mf" "[]"]
    by (simp add: MultiFilter_get_dependencies_def selected_Nil)
  moreover have "subseq (selected requested (filters mf)) (filters mf)"
    using subseq_selected_rev [of requested "rev (filters mf)"] by (simp add: selected_def)
  ultimately show ?thesis
    using selected_snoc [of requested fs f] by (simp add: selected_Nil)
qed

theorem get_dependencies_forward_pass_witness:
  "MultiFilter_get_dependencies
     (new_MultiFilter [new_Filter (\<lambda>d::Dataset. Some d) {} {''a''} {},
                       new_Filter (\<lambda>d. None) {''a''} {''b''} {},
                       new_Filter (\<lambda>d. Some (d\<lparr>PatientID := ''P''\<rparr>)) {''b''} {''c''} {}])
     {''c''}
   = ([\<lambda>d. Some (d\<lparr>PatientID := ''P''\<rparr>)], {''b''})"
  using get_dependencies_forward_pass
    [where mf = "new_MultiFilter [new_Filter (\<lambda>d::Dataset. Some d) {} {''a''} {},
                       new_Filter (\<lambda>d. None) {''a''} {''b''} {},
                       new_Filter (\<lambda>d. Some (d\<lparr>PatientID := ''P''\<rparr>)) {''b''} {''c''} {}]"
       and requested = "{''c''}" and fs = "[]"
       and f = "new_Filter (\<lambda>d::Dataset. Some d) {} {''a''} {}"]
  by (simp add: new_MultiFilter_def new_Filter_def Filter_post_init_def selected_def)

section \<open>Properties of the transform engines\<close>

lemma level_depth_inj: "level_depth a = level_depth b \<longleftrightarrow> a = b"
  by (cases a; cases b) simp_all

lemma reverse_loop_not_mismatch:
  "reverse_loop ops self lvl xs acc \<noteq> Inl QueryLevelMismatchError"
proof (induction xs arbitrary: acc)
  case Nil
  show ?case by (cases acc) simp
next
  case (Cons ds xs)
  obtain res inconsist dupes where acc: "acc = (res, inconsist, dupes)"
    by (cases acc) auto
  show ?case
    unfolding acc using Cons.IH
    by (auto simp add: Let_def split: option.splits bool.splits)
qed

text \<open>
  C7: \<^verbatim>\<open>reverse\<close> of the identity transform wraps the requested subset in a bundle:
  the consistent collection is exactly the subset, and the inconsistent and the
  duplicate list are empty.
\<close>

theorem DummyTransform_reverse_wraps:
  "DummyTransform_reverse self S = \<lparr>qr = S, inconsistent = [], duplicate = []\<rparr>
   \<and> qr (DummyTransform_reverse self S) = S
   \<and> inconsistent (DummyTransform_reverse self S) = []
   \<and> duplicate (DummyTransform_reverse self S) = []"
  by (simp add: DummyTransform_reverse_def)

text \<open>
  C2, as the code has it: \<^verbatim>\<open>reverse\<close> at the engine's own level always goes on to the
  loop over the records; at a finer level (a larger depth) it always raises the
  level-mismatch error; at a coarser level it raises the level-mismatch error when
  \<open>fully_invertible\<close> is empty and goes on to the loop when it is not. The loop itself
  never raises the level-mismatch error.
\<close>

theorem reverse_level_check:
  "(qr_level ops S = qr_level ops (new self) \<longrightarrow>
      FilterTransform_reverse ops self S =
        reverse_loop ops self (qr_level ops S) (qr_iter ops S) (qr_new ops (qr_level ops S), [], []))
   \<and> (level_depth (qr_level ops S) > level_depth (qr_level ops (new self)) \<longrightarrow>
      FilterTransform_reverse ops self S = Inl QueryLevelMismatchError)
   \<and> (level_depth (qr_level ops S) < level_depth (qr_level ops (new self)) \<longrightarrow>
      (fully_invertible self = {} \<longrightarrow>
         FilterTransform_reverse ops self S = Inl QueryLevelMismatchError)
      \<and> (fully_invertible self \<noteq> {} \<longrightarrow>
         FilterTransform_reverse ops self S =
           reverse_loop ops self (qr_level ops S) (qr_iter ops S)
             (qr_new ops (qr_level ops S), [], [])))
   \<and> reverse_loop ops self lvl xs acc \<noteq> Inl QueryLevelMismatchError"
proof -
  have "level_depth (qr_level ops S) > level_depth (qr_level ops (new self))
        \<Longrightarrow> qr_level ops S \<noteq> qr_level ops (new self)"
    by auto
  moreover have "level_depth (qr_level ops S) < level_depth (qr_level ops (new self))
        \<Longrightarrow> qr_level ops S \<noteq> qr_level ops (new self)"
    by auto
  ultimately show ?thesis
    using reverse_loop_not_mismatch [of ops self lvl xs acc]
    by (auto simp add: FilterTransform_reverse_def)
qed

lemma add_new_loop_uid_elems:
  "\<exists>m'. add_new_loop g lv old_ds new_ds uid_elems (m, u) = (m', Some (g lv new_ds))
        \<and> m' lv (g lv new_ds) = Some (g lv old_ds)
        \<and> (\<forall>l. dom (m l) \<subseteq> dom (m' l))"
  by (cases lv) (auto simp add: uid_elems_def Let_def)

lemma add_new_inconsistent:
  "qr_contains ops (new self) new_ds = None
   \<Longrightarrow> add_new ops self old_ds new_ds = (Inl InconsistentDataError, self)"
  by (simp add: add_new_def)

lemma add_new_duplicate:
  "qr_contains ops (new self) new_ds = Some True
   \<Longrightarrow> add_new ops self old_ds new_ds = (Inr None, self)"
  by (simp add: add_new_def)

lemma add_new_add_inconsistent:
  "qr_contains ops (new self) new_ds = Some False \<Longrightarrow> qr_add ops (new self) new_ds = None
   \<Longrightarrow> add_new ops self old_ds new_ds = (Inl InconsistentDataError, self)"
  by (simp add: add_new_def)

lemma add_new_stored:
  assumes "qr_contains ops (new self) new_ds = Some False"
    and "qr_add ops (new self) new_ds = Some new'"
  shows "\<exists>m'. add_new ops self old_ds new_ds =
           (Inr (Some (get_uid ops (qr_level ops (old self)) new_ds)),
            self\<lparr>new := new', new_to_old := m'\<rparr>)
         \<and> m' (qr_level ops (old self)) (get_uid ops (qr_level ops (old self)) new_ds)
             = Some (get_uid ops (qr_level ops (old self)) old_ds)
         \<and> (\<forall>l. dom (new_to_old self l) \<subseteq> dom (m' l))"
proof -
  obtain m' where m': "add_new_loop (get_uid ops) (qr_level ops (old self)) old_ds new_ds
        uid_elems (new_to_old self, None) =
      (m', Some (get_uid ops (qr_level ops (old self)) new_ds))"
    "m' (qr_level ops (old self)) (get_uid ops (qr_level ops (old self)) new_ds)
             = Some (get_uid ops (qr_level ops (old self)) old_ds)"
    "\<forall>l. dom (new_to_old self l) \<subseteq> dom (m' l)"
    using add_new_loop_uid_elems [of "get_uid ops" "qr_level ops (old self)" old_ds new_ds
        "new_to_old self" None]
    by blast
  show ?thesis
    using assms m' by (auto simp add: add_new_def)
qed

text \<open>The four outcomes of \<open>add_new\<close>.\<close>

lemma add_new_outcomes:
  obtains
    (inconsistent) "add_new ops self old_ds new_ds = (Inl InconsistentDataError, self)"
      "qr_contains ops (new self) new_ds = None
       \<or> (qr_contains ops (new self) new_ds = Some False \<and> qr_add ops (new self) new_ds = None)"
  | (duplicate) "add_new ops self old_ds new_ds = (Inr None, self)"
      "qr_contains ops (new self) new_ds = Some True"
  | (stored) new' m' where
      "qr_contains ops (new self) new_ds = Some False"
      "qr_add ops (new self) new_ds = Some new'"
      "add_new ops self old_ds new_ds =
           (Inr (Some (get_uid ops (qr_level ops (old self)) new_ds)),
            self\<lparr>new := new', new_to_old := m'\<rparr>)"
      "m' (qr_level ops (old self)) (get_uid ops (qr_level ops (old self)) new_ds)
             = Some (get_uid ops (qr_level ops (old self)) old_ds)"
      "\<forall>l. dom (new_to_old self l) \<subseteq> dom (m' l)"
proof (cases "qr_contains ops (new self) new_ds")
  case None
  then show ?thesis using inconsistent add_new_inconsistent by metis
next
  case (Some b)
  show ?thesis
  proof (cases b)
    case True
    then show ?thesis using Some duplicate add_new_duplicate by metis
  next
    case False
    show ?thesis
    proof (cases "qr_add ops (new self) new_ds")
      case None
      then show ?thesis using Some False inconsistent add_new_add_inconsistent by metis
    next
      case (Some new')
      then show ?thesis
        using \<open>qr_contains ops (new self) new_ds = Some b\<close> False stored
          add_new_stored [of ops self new_ds new' old_ds]
        by auto
    qed
  qed
qed


text \<open>
  The roll-back of \<^verbatim>\<open>add\<close> is guarded by the flag of the error raised only. When
  \<open>old_ds\<close> was already a duplicate of \<open>old\<close> and the merge raises
  \<^verbatim>\<open>InconsistentDataError\<close>, and when \<open>old_ds\<close> was already inconsistent with \<open>old\<close>
  and the merge yields a duplicate, the call removes \<open>old_ds\<close> from \<open>old\<close> although it
  never inserted it.
\<close>

lemma add_duplicate_old_inconsistent_new:
  assumes "qr_contains ops (old self) old_ds = Some True"
    and "qr_contains ops (new self) new_ds = None
         \<or> (qr_contains ops (new self) new_ds = Some False \<and> qr_add ops (new self) new_ds = None)"
  shows "FilterTransform_add ops self old_ds (Some new_ds) =
           (Some InconsistentDataError, [''Filter made data inconsistent''],
            self\<lparr>old := qr_remove ops (old self) old_ds\<rparr>)"
  using assms
  by (auto simp add: FilterTransform_add_def add_old_def add_filtered_def
      add_new_inconsistent add_new_add_inconsistent)

lemma add_inconsistent_old_duplicate_new:
  assumes "qr_contains ops (old self) old_ds = None"
    and "qr_contains ops (new self) new_ds = Some True"
  shows "FilterTransform_add ops self old_ds (Some new_ds) =
           (Some DuplicateDataError, [''Filter made data into a duplicate''],
            self\<lparr>old := qr_remove ops (old self) old_ds\<rparr>)"
  using assms
  by (simp add: FilterTransform_add_def add_old_def add_filtered_def add_new_duplicate)

















lemma impl_simps:
  "qr_new QueryResult_impl = (\<lambda>lvl. \<lparr>qlevel = lvl, nodes = []\<rparr>)"
  "qr_level QueryResult_impl = qlevel"
  "qr_contains QueryResult_impl = QueryResult_contains"
  "qr_add QueryResult_impl = QueryResult_add"
  "qr_remove QueryResult_impl = QueryResult_remove"
  "qr_iter QueryResult_impl = nodes"
  "qr_sub_query QueryResult_impl = QueryResult_sub_query"
  "qr_union QueryResult_impl = QueryResult_union"
  "get_uid QueryResult_impl = Dataset_uid"
  by (simp_all add: QueryResult_impl_def)


lemma engine0_eq:
  "engine0 = \<lparr>old = \<lparr>qlevel = IMAGE, nodes = []\<rparr>, new = \<lparr>qlevel = IMAGE, nodes = []\<rparr>,
      new_to_old = (\<lambda>lvl. Map.empty), fixed_inconsistent = Map.empty,
      fixed_duplicates = Map.empty, fully_invertible = uid_elem_set\<rparr>"
  by (auto simp add: engine0_def init_fields_def impl_simps uid_filter_def new_Filter_def
      Filter_post_init_def invertible_uids_def uninvertible_elems_def)

lemma add_engine0:
  "FilterTransform_add QueryResult_impl engine0 rec_I1 (Some rec_N1) = (None, [], engine1)"
  by (simp add: engine1_def engine0_eq FilterTransform_add_def add_old_def add_filtered_def
      add_new_def impl_simps QueryResult_contains_def QueryResult_add_def uid_elems_def
      rec_I1_def rec_N1_def Let_def)

lemma fully_invertible_add_new:
  "add_new ops self old_ds new_ds = (r, self') \<Longrightarrow> fully_invertible self' = fully_invertible self"
  by (cases rule: add_new_outcomes [of ops self old_ds new_ds]) auto

lemma fully_invertible_init_loop:
  "init_loop ops f xs s0 = (lg, Inr s) \<Longrightarrow> fully_invertible s = fully_invertible s0"
proof (induction xs arbitrary: s0)
  case Nil
  then show ?case by simp
next
  case (Cons x xs)
  show ?case
  proof (cases "f x")
    case None
    then show ?thesis using Cons by simp
  next
    case (Some n)
    obtain r s1 where a: "add_new ops s0 x n = (r, s1)"
      by (cases "add_new ops s0 x n") auto
    have "init_loop ops f xs s1 = (lg, Inr s)"
      using Cons.prems Some a by (auto split: sum.splits option.splits if_splits)
    then show ?thesis
      using Cons.IH fully_invertible_add_new [OF a] by simp
  qed
qed

text \<open>
  C10, as the code has it: every filter of \<^verbatim>\<open>make_edit_filter\<close> declares an empty
  invertible set. With \<^verbatim>\<open>update_uids=True\<close> its write set is \<open>AllElems\<close> and its
  \<open>invertible_uids\<close> is empty, so an engine built from it has an empty
  \<open>fully_invertible\<close> and rejects every coarser-level \<^verbatim>\<open>reverse\<close>. With
  \<^verbatim>\<open>update_uids=False\<close> its write set is the set of keys of the edits and its
  \<open>invertible_uids\<close> is the set of identifier attributes that are not among them.
\<close>

theorem make_edit_filter_invertible_uids:
  "invertible_elems (make_edit_filter ef ed uu) = {}
   \<and> write_elems (make_edit_filter ef ed True) = AllElems
   \<and> invertible_uids (make_edit_filter ef ed True) = {}
   \<and> write_elems (make_edit_filter ef ed False) = fst ` set ed
   \<and> invertible_uids (make_edit_filter ef ed False) = uid_elem_set - fst ` set ed
   \<and> (new_FilterTransform ops q (Single (make_edit_filter ef ed True)) = (lg, Inr self) \<longrightarrow>
        fully_invertible self = {}
        \<and> (level_depth (qr_level ops S) < level_depth (qr_level ops (new self)) \<longrightarrow>
             FilterTransform_reverse ops self S = Inl QueryLevelMismatchError))"
proof -
  have iu: "invertible_uids (make_edit_filter ef ed True) = {}"
    by (simp add: make_edit_filter_def new_Filter_def Filter_post_init_def invertible_uids_def
        uninvertible_elems_def AllElems_def)
  have "fully_invertible self = {}
        \<and> (level_depth (qr_level ops S) < level_depth (qr_level ops (new self)) \<longrightarrow>
             FilterTransform_reverse ops self S = Inl QueryLevelMismatchError)"
    if c: "new_FilterTransform ops q (Single (make_edit_filter ef ed True)) = (lg, Inr self)"
  proof -
    have "fully_invertible self = {}"
      using fully_invertible_init_loop [OF c [unfolded new_FilterTransform_def]] iu
      by (simp add: init_fields_def)
    then show ?thesis
      by (auto simp add: FilterTransform_reverse_def)
  qed
  then show ?thesis
    using iu
    by (simp add: make_edit_filter_def new_Filter_def Filter_post_init_def invertible_uids_def
        uninvertible_elems_def AllElems_def)
qed

lemmas engine_eval =
  FilterTransform_add_def add_old_def add_filtered_def add_new_def impl_simps
  QueryResult_contains_def QueryResult_add_def QueryResult_remove_def uid_elems_def
  uid_path_def rec_I1_def rec_I2_def rec_N1_def rec_N2_def rec_clash_def rec_other_def rec_N1_moved_def Let_def

lemma engine1_eq:
  "engine1 = \<lparr>old = \<lparr>qlevel = IMAGE, nodes = [rec_I1]\<rparr>,
      new = \<lparr>qlevel = IMAGE, nodes = [rec_N1]\<rparr>,
      new_to_old = (\<lambda>lvl. Map.empty)
        (PATIENT := [''P1'' \<mapsto> ''P1''], STUDY := [''S1'' \<mapsto> ''S1''],
         SERIES := [''Se1'' \<mapsto> ''Se1''], IMAGE := [''N1'' \<mapsto> ''I1'']),
      fixed_inconsistent = Map.empty,
      fixed_duplicates = Map.empty, fully_invertible = uid_elem_set\<rparr>"
  by (simp add: engine1_def engine0_eq engine_eval)

lemma construct_engine0:
  "new_FilterTransform QueryResult_impl \<lparr>qlevel = IMAGE, nodes = []\<rparr> uid_filter
     = ([], Inr engine0)"
  by (simp add: new_FilterTransform_def engine0_def impl_simps)

lemma reachable_engine1: "reachable QueryResult_impl engine1"
  using reachable.added [OF reachable.constructed [OF construct_engine0] add_engine0] .

text \<open>
  C1 does not hold of the code: a failed \<^verbatim>\<open>add\<close> can remove from \<open>old\<close> a record
  that an earlier call committed. At the engine after \<^verbatim>\<open>add(rec_I1, rec_N1)\<close>, which
  holds \<open>rec_I1\<close> in \<open>old\<close>, \<open>rec_N1\<close> in \<open>new\<close> and the mapping of \<open>N1\<close> to \<open>I1\<close>,
  and whose \<^verbatim>\<open>reverse\<close> of \<open>rec_N1\<close> returns \<open>rec_I1\<close>: the call
  \<^verbatim>\<open>add(rec_I1, rec_N1_moved)\<close> finds \<open>rec_I1\<close> a duplicate of \<open>old\<close>, fails with
  \<^verbatim>\<open>InconsistentDataError\<close>, and leaves \<open>old\<close> empty, with \<open>new\<close> and the mapping as
  they were, so that \<^verbatim>\<open>reverse\<close> of \<open>rec_N1\<close> returns no record. The call
  \<^verbatim>\<open>add(rec_clash, rec_N1)\<close> finds \<open>rec_clash\<close> inconsistent with \<open>old\<close>, fails with
  \<^verbatim>\<open>DuplicateDataError\<close>, and leaves \<open>old\<close> empty as well.
\<close>

theorem add_failure_removes_committed_record:
  "reachable QueryResult_impl engine1
   \<and> old engine1 = \<lparr>qlevel = IMAGE, nodes = [rec_I1]\<rparr>
   \<and> new engine1 = \<lparr>qlevel = IMAGE, nodes = [rec_N1]\<rparr>
   \<and> new_to_old engine1 IMAGE ''N1'' = Some ''I1''
   \<and> FilterTransform_reverse QueryResult_impl engine1 \<lparr>qlevel = IMAGE, nodes = [rec_N1]\<rparr>
       = Inr \<lparr>qr = \<lparr>qlevel = IMAGE, nodes = [rec_I1]\<rparr>, inconsistent = [], duplicate = []\<rparr>
   \<and> qr_contains QueryResult_impl (old engine1) rec_I1 = Some True
   \<and> FilterTransform_add QueryResult_impl engine1 rec_I1 (Some rec_N1_moved)
       = (Some InconsistentDataError, [''Filter made data inconsistent''],
          engine1\<lparr>old := \<lparr>qlevel = IMAGE, nodes = []\<rparr>\<rparr>)
   \<and> FilterTransform_reverse QueryResult_impl (engine1\<lparr>old := \<lparr>qlevel = IMAGE, nodes = []\<rparr>\<rparr>)
         \<lparr>qlevel = IMAGE, nodes = [rec_N1]\<rparr>
       = Inr \<lparr>qr = \<lparr>qlevel = IMAGE, nodes = []\<rparr>, inconsistent = [], duplicate = []\<rparr>
   \<and> qr_contains QueryResult_impl (old engine1) rec_clash = None
   \<and> FilterTransform_add QueryResult_impl engine1 rec_clash (Some rec_N1)
       = (Some DuplicateDataError, [''Filter made data into a duplicate''],
          engine1\<lparr>old := \<lparr>qlevel = IMAGE, nodes = []\<rparr>\<rparr>)"
proof -
  have f: "old engine1 = \<lparr>qlevel = IMAGE, nodes = [rec_I1]\<rparr>"
    "new engine1 = \<lparr>qlevel = IMAGE, nodes = [rec_N1]\<rparr>"
    "new_to_old engine1 IMAGE ''N1'' = Some ''I1''"
    by (simp_all add: engine1_eq)
  have r1: "FilterTransform_reverse QueryResult_impl engine1 \<lparr>qlevel = IMAGE, nodes = [rec_N1]\<rparr>
       = Inr \<lparr>qr = \<lparr>qlevel = IMAGE, nodes = [rec_I1]\<rparr>, inconsistent = [], duplicate = []\<rparr>"
    by (simp add: FilterTransform_reverse_def engine1_eq impl_simps QueryResult_contains_def
        QueryResult_sub_query_def QueryResult_union_def uid_path_def rec_I1_def rec_N1_def Let_def)
  have c1: "qr_contains QueryResult_impl (old engine1) rec_I1 = Some True"
    by (simp add: engine1_eq engine_eval)
  have a1: "FilterTransform_add QueryResult_impl engine1 rec_I1 (Some rec_N1_moved)
       = (Some InconsistentDataError, [''Filter made data inconsistent''],
          engine1\<lparr>old := \<lparr>qlevel = IMAGE, nodes = []\<rparr>\<rparr>)"
    by (simp add: engine1_eq engine_eval rec_N1_moved_def)
  have r2: "FilterTransform_reverse QueryResult_impl
         (engine1\<lparr>old := \<lparr>qlevel = IMAGE, nodes = []\<rparr>\<rparr>) \<lparr>qlevel = IMAGE, nodes = [rec_N1]\<rparr>
       = Inr \<lparr>qr = \<lparr>qlevel = IMAGE, nodes = []\<rparr>, inconsistent = [], duplicate = []\<rparr>"
    by (simp add: FilterTransform_reverse_def engine1_eq impl_simps QueryResult_contains_def
        QueryResult_sub_query_def QueryResult_union_def uid_path_def rec_I1_def rec_N1_def Let_def)
  have c2: "qr_contains QueryResult_impl (old engine1) rec_clash = None"
    by (simp add: engine1_eq engine_eval)
  have a2: "FilterTransform_add QueryResult_impl engine1 rec_clash (Some rec_N1)
       = (Some DuplicateDataError, [''Filter made data into a duplicate''],
          engine1\<lparr>old := \<lparr>qlevel = IMAGE, nodes = []\<rparr>\<rparr>)"
    by (simp add: engine1_eq engine_eval)
  show ?thesis
    using reachable_engine1 f r1 c1 a1 r2 c2 a2 by simp
qed











lemma construct_study_engine:
  "new_FilterTransform QueryResult_impl \<lparr>qlevel = STUDY, nodes = []\<rparr> uid_filter
     = ([], Inr study_engine)"
  by (simp add: new_FilterTransform_def study_engine_def impl_simps)

lemma study_engine_eq:
  "study_engine = \<lparr>old = \<lparr>qlevel = STUDY, nodes = []\<rparr>, new = \<lparr>qlevel = STUDY, nodes = []\<rparr>,
      new_to_old = (\<lambda>lvl. Map.empty), fixed_inconsistent = Map.empty,
      fixed_duplicates = Map.empty, fully_invertible = uid_elem_set\<rparr>"
  by (auto simp add: study_engine_def init_fields_def impl_simps uid_filter_def new_Filter_def
      Filter_post_init_def invertible_uids_def uninvertible_elems_def)

lemma uid_elem_set_nonempty: "uid_elem_set \<noteq> {}"
  by (simp add: uid_elem_set_def uid_elems_def)

theorem reverse_finer_level_counterexample:
  "new_FilterTransform QueryResult_impl \<lparr>qlevel = STUDY, nodes = []\<rparr> uid_filter
     = ([], Inr study_engine)
   \<and> level_depth (qr_level QueryResult_impl (new study_engine))
       < level_depth (qr_level QueryResult_impl \<lparr>qlevel = SERIES, nodes = []\<rparr>)
   \<and> fully_invertible study_engine \<noteq> {}
   \<and> FilterTransform_reverse QueryResult_impl study_engine \<lparr>qlevel = SERIES, nodes = []\<rparr>
       = Inl QueryLevelMismatchError"
  using construct_study_engine uid_elem_set_nonempty
  by (simp add: study_engine_eq FilterTransform_reverse_def impl_simps)

theorem reverse_level_check_witness:
  "qr_level QueryResult_impl \<lparr>qlevel = STUDY, nodes = []\<rparr>
     = qr_level QueryResult_impl (new study_engine)
   \<and> FilterTransform_reverse QueryResult_impl study_engine \<lparr>qlevel = STUDY, nodes = []\<rparr>
       = Inr \<lparr>qr = \<lparr>qlevel = STUDY, nodes = []\<rparr>, inconsistent = [], duplicate = []\<rparr>
   \<and> level_depth (qr_level QueryResult_impl \<lparr>qlevel = PATIENT, nodes = []\<rparr>)
       < level_depth (qr_level QueryResult_impl (new study_engine))
   \<and> fully_invertible study_engine \<noteq> {}
   \<and> FilterTransform_reverse QueryResult_impl study_engine \<lparr>qlevel = PATIENT, nodes = []\<rparr>
       = Inr \<lparr>qr = \<lparr>qlevel = PATIENT, nodes = []\<rparr>, inconsistent = [], duplicate = []\<rparr>
   \<and> fully_invertible (study_engine\<lparr>fully_invertible := {}\<rparr>) = {}
   \<and> FilterTransform_reverse QueryResult_impl (study_engine\<lparr>fully_invertible := {}\<rparr>)
        \<lparr>qlevel = PATIENT, nodes = []\<rparr> = Inl QueryLevelMismatchError
   \<and> level_depth (qr_level QueryResult_impl (new study_engine))
       < level_depth (qr_level QueryResult_impl \<lparr>qlevel = IMAGE, nodes = []\<rparr>)
   \<and> FilterTransform_reverse QueryResult_impl study_engine \<lparr>qlevel = IMAGE, nodes = []\<rparr>
       = Inl QueryLevelMismatchError"
proof -
  have lv: "qr_level QueryResult_impl (new study_engine) = STUDY"
    "qr_level QueryResult_impl (new (study_engine\<lparr>fully_invertible := {}\<rparr>)) = STUDY"
    "fully_invertible study_engine \<noteq> {}"
    using uid_elem_set_nonempty by (simp_all add: study_engine_eq impl_simps)
  show ?thesis
    using reverse_level_check [of QueryResult_impl "\<lparr>qlevel = STUDY, nodes = []\<rparr>" study_engine
        STUDY "[]" "(\<lparr>qlevel = STUDY, nodes = []\<rparr>, [], [])"]
      reverse_level_check [of QueryResult_impl "\<lparr>qlevel = PATIENT, nodes = []\<rparr>" study_engine
        STUDY "[]" "(\<lparr>qlevel = STUDY, nodes = []\<rparr>, [], [])"]
      reverse_level_check [of QueryResult_impl "\<lparr>qlevel = PATIENT, nodes = []\<rparr>"
        "study_engine\<lparr>fully_invertible := {}\<rparr>"
        STUDY "[]" "(\<lparr>qlevel = STUDY, nodes = []\<rparr>, [], [])"]
      reverse_level_check [of QueryResult_impl "\<lparr>qlevel = IMAGE, nodes = []\<rparr>" study_engine
        STUDY "[]" "(\<lparr>qlevel = STUDY, nodes = []\<rparr>, [], [])"]
      lv
    by (simp add: impl_simps)
qed

lemma edit_filter_uids:
  "AnyFilter_invertible_uids (edit_filter True) = {}"
  "AnyFilter_invertible_uids (edit_filter False) = uid_elem_set"
  by (auto simp add: edit_filter_def make_edit_filter_def new_Filter_def Filter_post_init_def
      invertible_uids_def uninvertible_elems_def AllElems_def uid_elem_set_def uid_elems_def)

theorem make_edit_filter_invertible_uids_witness:
  "new_FilterTransform QueryResult_impl \<lparr>qlevel = STUDY, nodes = []\<rparr> (edit_filter True)
     = ([], Inr (init_fields QueryResult_impl \<lparr>qlevel = STUDY, nodes = []\<rparr> (edit_filter True)))
   \<and> fully_invertible (init_fields QueryResult_impl \<lparr>qlevel = STUDY, nodes = []\<rparr> (edit_filter True))
       = {}
   \<and> level_depth (qr_level QueryResult_impl \<lparr>qlevel = PATIENT, nodes = []\<rparr>)
       < level_depth (qr_level QueryResult_impl
           (new (init_fields QueryResult_impl \<lparr>qlevel = STUDY, nodes = []\<rparr> (edit_filter True))))
   \<and> FilterTransform_reverse QueryResult_impl
        (init_fields QueryResult_impl \<lparr>qlevel = STUDY, nodes = []\<rparr> (edit_filter True))
        \<lparr>qlevel = PATIENT, nodes = []\<rparr> = Inl QueryLevelMismatchError"
proof -
  let ?E = "init_fields QueryResult_impl \<lparr>qlevel = STUDY, nodes = []\<rparr> (edit_filter True)"
  have c: "new_FilterTransform QueryResult_impl \<lparr>qlevel = STUDY, nodes = []\<rparr>
      (Single (make_edit_filter Some [(''PatientName'', Some ''Anonymous'')] True)) = ([], Inr ?E)"
    by (simp add: new_FilterTransform_def impl_simps edit_filter_def)
  have l: "level_depth (qr_level QueryResult_impl \<lparr>qlevel = PATIENT, nodes = []\<rparr>)
       < level_depth (qr_level QueryResult_impl (new ?E))"
    by (simp add: init_fields_def impl_simps)
  show ?thesis
    using make_edit_filter_invertible_uids
      [where ops = QueryResult_impl and q = "\<lparr>qlevel = STUDY, nodes = []\<rparr>"
         and ef = Some and ed = "[(''PatientName'', Some ''Anonymous'')]" and uu = True
         and lg = "[]" and self = ?E and S = "\<lparr>qlevel = PATIENT, nodes = []\<rparr>"]
      c l
    by (simp add: edit_filter_def)
qed

theorem make_edit_filter_counterexample:
  "invertible_elems (make_edit_filter (Some :: Dataset \<Rightarrow> Dataset option)
       [(''PatientName'', Some ''Anonymous'')] False) = {}
   \<and> ''PatientID'' \<in> invertible_uids (make_edit_filter (Some :: Dataset \<Rightarrow> Dataset option)
       [(''PatientName'', Some ''Anonymous'')] False)
   \<and> new_FilterTransform QueryResult_impl \<lparr>qlevel = STUDY, nodes = []\<rparr> (edit_filter False)
     = ([], Inr (init_fields QueryResult_impl \<lparr>qlevel = STUDY, nodes = []\<rparr> (edit_filter False)))
   \<and> fully_invertible (init_fields QueryResult_impl \<lparr>qlevel = STUDY, nodes = []\<rparr> (edit_filter False))
       = uid_elem_set
   \<and> level_depth (qr_level QueryResult_impl \<lparr>qlevel = PATIENT, nodes = []\<rparr>)
       < level_depth (qr_level QueryResult_impl
           (new (init_fields QueryResult_impl \<lparr>qlevel = STUDY, nodes = []\<rparr> (edit_filter False))))
   \<and> FilterTransform_reverse QueryResult_impl
        (init_fields QueryResult_impl \<lparr>qlevel = STUDY, nodes = []\<rparr> (edit_filter False))
        \<lparr>qlevel = PATIENT, nodes = []\<rparr>
       = Inr \<lparr>qr = \<lparr>qlevel = PATIENT, nodes = []\<rparr>, inconsistent = [], duplicate = []\<rparr>"
proof -
  have a: "invertible_elems (make_edit_filter (Some :: Dataset \<Rightarrow> Dataset option)
       [(''PatientName'', Some ''Anonymous'')] False) = {}"
    "''PatientID'' \<in> invertible_uids (make_edit_filter (Some :: Dataset \<Rightarrow> Dataset option)
       [(''PatientName'', Some ''Anonymous'')] False)"
    by (simp_all add: make_edit_filter_def new_Filter_def Filter_post_init_def
        invertible_uids_def uninvertible_elems_def uid_elem_set_def uid_elems_def)
  have b: "new_FilterTransform QueryResult_impl \<lparr>qlevel = STUDY, nodes = []\<rparr> (edit_filter False)
     = ([], Inr (init_fields QueryResult_impl \<lparr>qlevel = STUDY, nodes = []\<rparr> (edit_filter False)))"
    by (simp add: new_FilterTransform_def impl_simps)
  have c: "FilterTransform_reverse QueryResult_impl
        (init_fields QueryResult_impl \<lparr>qlevel = STUDY, nodes = []\<rparr> (edit_filter False))
        \<lparr>qlevel = PATIENT, nodes = []\<rparr>
       = Inr \<lparr>qr = \<lparr>qlevel = PATIENT, nodes = []\<rparr>, inconsistent = [], duplicate = []\<rparr>"
    using uid_elem_set_nonempty
    by (simp add: FilterTransform_reverse_def init_fields_def impl_simps edit_filter_uids)
  show ?thesis
    using a b c by (simp add: init_fields_def impl_simps edit_filter_uids)
qed

end
